theory Spec2Isabelle
  imports Main "HOL-Library.FSet" "HOL-Library.Multiset" "HOL-Library.Word"
    "HOL-Library.List_Lexorder"
begin

text \<open>
  The program is \<open>src/qualite.ts\<close> with the \<open>execP\<close> of \<open>utils.ts\<close>; what the libraries it
  calls do (Node's \<open>exec\<close>, \<open>RegExp\<close>, Immutable's \<open>Set\<close>, \<open>mergeMap\<close> of RxJS, \<open>pino\<close>,
  \<open>chalk\<close>) is modelled beside it.
\<close>

section \<open>Strings\<close>

text \<open>
  A JavaScript string is the list of its UTF-16 code units. \<open>str\<close> gives the string of an
  ASCII literal. Strings are ordered lexicographically (a proper prefix first), code
  units by their value, which is how JavaScript compares strings and how the default
  comparator of \<open>sort\<close> orders them.
\<close>

type_synonym CodeUnit = "16 word"
type_synonym JSString = "CodeUnit list"

definition str :: "string \<Rightarrow> JSString" where
  "str s = map of_char s"

type_synonym ProcessCode = int
type_synonym StdOut = JSString
type_synonym StdErr = JSString
type_synonym ShellCommand = JSString
type_synonym ProcessToRun = JSString
type_synonym MessageToLog = JSString
type_synonym GitBranch = JSString
type_synonym FileName = JSString
type_synonym MaxParallel = nat

text \<open>
  The white space and line terminator code points that \<open>String.prototype.trim\<close> strips:
  TAB, LF, VT, FF, CR, SP, U+00A0, U+1680, U+2000 to U+200A, U+2028, U+2029, U+202F,
  U+205F, U+3000 and U+FEFF.
\<close>

definition isWhiteSpace :: "CodeUnit \<Rightarrow> bool" where
  "isWhiteSpace c \<longleftrightarrow>
     c \<in> set [0x0009, 0x000A, 0x000B, 0x000C, 0x000D, 0x0020, 0x00A0, 0x1680, 0x2000, 0x2001,
       0x2002, 0x2003, 0x2004, 0x2005, 0x2006, 0x2007, 0x2008, 0x2009, 0x200A, 0x2028, 0x2029,
       0x202F, 0x205F, 0x3000, 0xFEFF]"

text \<open>\<open>s.trim()\<close>: white space is stripped from the front and from the back.\<close>

definition trim :: "JSString \<Rightarrow> JSString" where
  "trim s = rev (dropWhile isWhiteSpace (rev (dropWhile isWhiteSpace s)))"

text \<open>
  \<open>a.split(/\r?\n/)\<close>: a line ends at a line feed, or at a carriage return that a line
  feed follows; the empty string splits into one empty line.
\<close>

fun split_newlines :: "JSString \<Rightarrow> JSString list" where
  "split_newlines [] = [[]]"
| "split_newlines (c # cs) =
     (if c = 0x0A then [] # split_newlines cs
      else if c = 0x0D \<and> cs \<noteq> [] \<and> hd cs = 0x0A then [] # split_newlines (tl cs)
      else (case split_newlines cs of
              l # ls \<Rightarrow> (c # l) # ls
            | [] \<Rightarrow> [[c]]))"

text \<open>
  A number inside a template literal: its decimal digits, a minus sign first. The numbers
  the program prints are process codes and sizes, integers that JavaScript prints in full.
\<close>

fun digits :: "nat \<Rightarrow> JSString" where
  "digits n =
     (if n < 10 then [str ''0123456789'' ! n]
      else digits (n div 10) @ [str ''0123456789'' ! (n mod 10)])"

definition toString :: "int \<Rightarrow> JSString" where
  "toString i = (if i < 0 then str ''-'' @ digits (nat (- i)) else digits (nat i))"

section \<open>Regular expressions\<close>

text \<open>
  A \<open>RegExp\<close> object: \<open>ident\<close> tells the objects apart; \<open>search s i\<close> is the search of
  \<open>RegExpBuiltinExec\<close> in \<open>s\<close> from the index \<open>i\<close>, the end index of the match it finds
  (for a sticky pattern a match at \<open>i\<close> itself, else the first match at or after \<open>i\<close>) or
  \<open>None\<close>; \<open>global\<close> and \<open>sticky\<close> are the flags. The \<open>lastIndex\<close> of the objects is kept
  in a heap, by \<open>ident\<close>.
\<close>

record RegExp =
  ident :: nat
  search :: "JSString \<Rightarrow> nat \<Rightarrow> nat option"
  global :: bool
  sticky :: bool

type_synonym Heap = "nat \<Rightarrow> nat"

definition usesLastIndex :: "RegExp \<Rightarrow> bool" where
  "usesLastIndex r \<longleftrightarrow> global r \<or> sticky r"

text \<open>
  \<open>r.test(s)\<close>: a pattern with the global or the sticky flag searches from its
  \<open>lastIndex\<close>, fails at once when that is beyond the string, and leaves the end of the
  match, or 0 after a failure, in \<open>lastIndex\<close>; a pattern with neither flag searches from
  0 and leaves \<open>lastIndex\<close> as it is.
\<close>

definition test :: "RegExp \<Rightarrow> JSString \<Rightarrow> Heap \<Rightarrow> bool \<times> Heap" where
  "test r s h =
     (if usesLastIndex r
      then (if h (ident r) > length s then (False, h(ident r := 0))
            else (case search r s (h (ident r)) of
                    None \<Rightarrow> (False, h(ident r := 0))
                  | Some e \<Rightarrow> (True, h(ident r := e))))
      else (search r s 0 \<noteq> None, h))"


section \<open>utils.ts\<close>

text \<open>
  The error Node's \<open>exec\<close> passes to its callback; the program reads its \<open>code\<close> only,
  taken as the number the type \<open>ProcessCode\<close> declares.
\<close>

datatype ExecException = ExecException (errCode: ProcessCode)

record ChildProcess =
  code :: ProcessCode
  stdout :: StdOut
  stderr :: StdErr
  error :: "ExecException option"

text \<open>
  What the program reads of its surroundings: \<open>exec\<close> gives for a shell command the
  arguments of Node's callback (the error if any, stdout, stderr); \<open>recursive\<close> is the
  listing \<open>recursive(process.cwd())\<close> resolves to (\<open>None\<close> when it rejects); \<open>getenv\<close>
  is \<open>process.env\<close>; \<open>lastIndexes\<close> holds the \<open>lastIndex\<close> each pattern object has when
  the program is called. An Immutable \<open>Set\<close> iterates over its members in an order the
  program does not choose (it follows their hashes and their insertion): \<open>rank\<close> gives
  that order, lower ranks first and equal ranks by name, so that every order is that of
  some \<open>rank\<close>.
\<close>

record Platform =
  exec :: "ShellCommand \<Rightarrow> ExecException option \<times> JSString \<times> JSString"
  recursive :: "FileName list option"
  getenv :: "JSString \<Rightarrow> JSString option"
  lastIndexes :: Heap
  rank :: "FileName \<Rightarrow> nat"

text \<open>\<open>execP\<close>: \<open>Inl\<close> is the rejected promise (\<open>ko\<close>), \<open>Inr\<close> the resolved one (\<open>ok\<close>).\<close>

definition execP :: "Platform \<Rightarrow> ShellCommand \<Rightarrow> ChildProcess + ChildProcess" where
  "execP pf process =
     (case exec pf process of
        (Some err, out, errout) \<Rightarrow>
          Inl \<lparr>code = errCode err, stdout = trim out, stderr = trim errout, error = Some err\<rparr>
      | (None, out, errout) \<Rightarrow>
          Inr \<lparr>code = 0, stdout = trim out, stderr = trim errout, error = None\<rparr>)"

section \<open>qualite.ts: selecting the files\<close>

datatype Verbosity = Silent | LogErrors | LogEverything

datatype Files = AllInPwd | IndexedInGit | ModifiedSinceOriginMasterInGit | StagedInGit

text \<open>
  A set of patterns is the list of its members, in the order the set iterates over them.
  A set of files is a finite set; \<open>iterate\<close> lists its members in the order the set
  iterates over them.
\<close>

type_synonym PatternWhitelist = "RegExp list"
type_synonym PatternBlacklist = "RegExp list"
type_synonym FilesToProcess = "FileName fset"

definition iterate :: "Platform \<Rightarrow> FilesToProcess \<Rightarrow> FileName list" where
  "iterate pf files = sort_key (rank pf) (sorted_list_of_fset files)"

text \<open>An environment variable is truthy when it is set and not the empty string.\<close>

definition targetBranch :: "Platform \<Rightarrow> GitBranch" where
  "targetBranch pf =
     (case getenv pf (str ''STASH_PULL_REQUEST_BRANCH_DESTINATION'') of
        Some (c # cs) \<Rightarrow> str ''stash/'' @ c # cs
      | _ \<Rightarrow>
          (case getenv pf (str ''CHANGE_TARGET'') of
             Some (c # cs) \<Rightarrow> str ''upstream/'' @ c # cs
           | _ \<Rightarrow> str ''origin/master''))"

definition linesFromStdout :: "StdOut \<Rightarrow> FilesToProcess" where
  "linesFromStdout a = fset_of_list (split_newlines a)"

text \<open>
  An observable that errors is \<open>Inl\<close>: no subscriber of the program handles an error, so
  the run ends there. \<open>forkJoin\<close> errors when either command does.
\<close>

datatype SelectionError = ExecRejected ChildProcess | RecursiveRejected

definition modifiedSinceOriginMasterInGit :: "Platform \<Rightarrow> SelectionError + FilesToProcess" where
  "modifiedSinceOriginMasterInGit pf =
     (case execP pf (str ''git --no-pager diff --name-only --diff-filter=AM '' @ targetBranch pf
                      @ str ''...HEAD'') of
        Inl e \<Rightarrow> Inl (ExecRejected e)
      | Inr a \<Rightarrow>
          (case execP pf (str ''git --no-pager diff --name-only --diff-filter=AM --staged'') of
             Inl e \<Rightarrow> Inl (ExecRejected e)
           | Inr b \<Rightarrow> Inr (linesFromStdout (stdout a @ stdout b))))"

definition indexedInGit :: "Platform \<Rightarrow> SelectionError + FilesToProcess" where
  "indexedInGit pf =
     (case execP pf (str ''git ls-files'') of
        Inl e \<Rightarrow> Inl (ExecRejected e)
      | Inr a \<Rightarrow> Inr (linesFromStdout (stdout a)))"

definition allInPwd :: "Platform \<Rightarrow> SelectionError + FilesToProcess" where
  "allInPwd pf =
     (case recursive pf of
        None \<Rightarrow> Inl RecursiveRejected
      | Some f \<Rightarrow> Inr (fset_of_list f))"

definition stagedInGit :: "Platform \<Rightarrow> SelectionError + FilesToProcess" where
  "stagedInGit pf =
     (case execP pf (str ''git --no-pager diff --name-only --diff-filter=AM --staged'') of
        Inl e \<Rightarrow> Inl (ExecRejected e)
      | Inr a \<Rightarrow> Inr (linesFromStdout (stdout a)))"

text \<open>\<open>_filesToRunOn\<close> (a name cannot start with an underscore here).\<close>

fun filesToRunOn' :: "Platform \<Rightarrow> Files \<Rightarrow> SelectionError + FilesToProcess" where
  "filesToRunOn' pf AllInPwd = allInPwd pf"
| "filesToRunOn' pf IndexedInGit = indexedInGit pf"
| "filesToRunOn' pf ModifiedSinceOriginMasterInGit = modifiedSinceOriginMasterInGit pf"
| "filesToRunOn' pf StagedInGit = stagedInGit pf"

text \<open>
  \<open>wl.some(wlp => wlp.test(f))\<close> and \<open>bl.every(blp => !blp.test(f))\<close>: the patterns are
  tested in turn, up to the first that matches, and each test leaves its \<open>lastIndex\<close>.
\<close>

fun some_test :: "RegExp list \<Rightarrow> FileName \<Rightarrow> Heap \<Rightarrow> bool \<times> Heap" where
  "some_test [] f h = (False, h)"
| "some_test (wlp # wl) f h =
     (case test wlp f h of
        (True, h') \<Rightarrow> (True, h')
      | (False, h') \<Rightarrow> some_test wl f h')"

fun every_not_test :: "RegExp list \<Rightarrow> FileName \<Rightarrow> Heap \<Rightarrow> bool \<times> Heap" where
  "every_not_test [] f h = (True, h)"
| "every_not_test (blp # bl) f h =
     (case test blp f h of
        (True, h') \<Rightarrow> (False, h')
      | (False, h') \<Rightarrow> every_not_test bl f h')"

text \<open>\<open>files.filter\<close>: the predicate is called once for each file, in the set's order.\<close>

fun filter_files ::
  "(FileName \<Rightarrow> Heap \<Rightarrow> bool \<times> Heap) \<Rightarrow> FileName list \<Rightarrow> Heap \<Rightarrow> FileName list \<times> Heap" where
  "filter_files predicate [] h = ([], h)"
| "filter_files predicate (f # files) h =
     (case predicate f h of
        (keep, h') \<Rightarrow>
          (case filter_files predicate files h' of
             (kept, h'') \<Rightarrow> (if keep then f # kept else kept, h'')))"

text \<open>
  The three \<open>map\<close> stages of \<open>filesToRunOn\<close>'s pipe, on the files in the order their set
  iterates over them; the set that \<open>filter\<close> returns iterates over the files it kept in
  the order in which it was given them. \<open>sort\<close> compares the names as JavaScript compares
  strings; the sorted set is the list of its members in order, which \<open>toArray\<close> later
  returns.
\<close>

definition keepWhitelisted :: "PatternWhitelist \<Rightarrow> FileName list \<Rightarrow> Heap \<Rightarrow> FileName list \<times> Heap" where
  "keepWhitelisted wl files h =
     (if length wl > 0 then filter_files (some_test wl) files h else (files, h))"

definition dropBlacklisted :: "PatternBlacklist \<Rightarrow> FileName list \<Rightarrow> Heap \<Rightarrow> FileName list \<times> Heap" where
  "dropBlacklisted bl files h =
     (if length bl > 0 then filter_files (every_not_test bl) files h else (files, h))"

definition patternFilter ::
  "PatternWhitelist \<Rightarrow> PatternBlacklist \<Rightarrow> FileName list \<Rightarrow> Heap \<Rightarrow> FileName list \<times> Heap" where
  "patternFilter wl bl files h =
     (case keepWhitelisted wl files h of
        (kept, h') \<Rightarrow>
          (case dropBlacklisted bl kept h' of
             (left, h'') \<Rightarrow> (sort left, h'')))"

definition filesToRunOn ::
  "Platform \<Rightarrow> Files \<Rightarrow> PatternWhitelist \<Rightarrow> PatternBlacklist \<Rightarrow> SelectionError + FileName list" where
  "filesToRunOn pf fi wl bl =
     (case filesToRunOn' pf fi of
        Inl e \<Rightarrow> Inl e
      | Inr files \<Rightarrow> Inr (fst (patternFilter wl bl (iterate pf files) (lastIndexes pf))))"

section \<open>qualite.ts: running the process\<close>

record ChildProcessAndFileName = ChildProcess +
  filename :: FileName

text \<open>
  \<open>execProcess\<close>: \<open>catchError\<close> turns the rejected child process into a value of the
  stream, and \<open>Object.assign\<close> adds the file name to either.
\<close>

definition execProcess :: "Platform \<Rightarrow> ProcessToRun \<Rightarrow> FileName \<Rightarrow> ChildProcessAndFileName" where
  "execProcess pf p f =
     (let a = (case execP pf (p @ str '' '' @ f @ str '' 2>&1'') of Inl a \<Rightarrow> a | Inr a \<Rightarrow> a)
      in \<lparr>code = code a, stdout = stdout a, stderr = stderr a, error = error a, filename = f\<rparr>)"

text \<open>
  \<open>mergeMap\<close> with a concurrency limit, over the array \<open>from\<close> emits at once. \<open>buffer\<close>
  holds the files that wait, \<open>active\<close> the files whose process runs, \<open>started\<close> every
  file a process was started for, \<open>emitted\<close> the results passed downstream, in the order
  the processes ended; \<open>completed\<close> says that the stream has completed.
\<close>

record MergeMapSubscriber =
  buffer :: "FileName list"
  active :: "FileName list"
  hasCompleted :: bool
  started :: "FileName list"
  emitted :: "ChildProcessAndFileName list"
  completed :: bool

definition mergeMap_init :: MergeMapSubscriber where
  "mergeMap_init =
     \<lparr>buffer = [], active = [], hasCompleted = False, started = [], emitted = [],
      completed = False\<rparr>"

text \<open>\<open>_next\<close>: a value is subscribed to under the limit and waits in the buffer otherwise.\<close>

definition mergeMap_next :: "MaxParallel \<Rightarrow> MergeMapSubscriber \<Rightarrow> FileName \<Rightarrow> MergeMapSubscriber" where
  "mergeMap_next m st a =
     (if length (active st) < m
      then st\<lparr>active := active st @ [a], started := started st @ [a]\<rparr>
      else st\<lparr>buffer := buffer st @ [a]\<rparr>)"

text \<open>\<open>_complete\<close>: the source has ended.\<close>

definition mergeMap_complete :: "MergeMapSubscriber \<Rightarrow> MergeMapSubscriber" where
  "mergeMap_complete st =
     (if active st = [] \<and> buffer st = []
      then st\<lparr>hasCompleted := True, completed := True\<rparr>
      else st\<lparr>hasCompleted := True\<rparr>)"

text \<open>
  The process of the \<open>i\<close>-th active file ends: its result is emitted (\<open>notifyNext\<close>) and
  the next waiting file, if any, takes its place (\<open>notifyComplete\<close>).
\<close>

definition mergeMap_notify ::
  "MaxParallel \<Rightarrow> (FileName \<Rightarrow> ChildProcessAndFileName) \<Rightarrow> nat \<Rightarrow> MergeMapSubscriber \<Rightarrow> MergeMapSubscriber" where
  "mergeMap_notify m project i st =
     (let st1 = st\<lparr>emitted := emitted st @ [project (active st ! i)],
                   active := take i (active st) @ drop (Suc i) (active st)\<rparr>
      in case buffer st1 of
           b # bs \<Rightarrow> mergeMap_next m (st1\<lparr>buffer := bs\<rparr>) b
         | [] \<Rightarrow> if active st1 = [] \<and> hasCompleted st1 then st1\<lparr>completed := True\<rparr> else st1)"

text \<open>
  Which running process ends next is not the program's choice: a scheduler picks, from
  the active files, the position of the one that ends (taken modulo their number).
\<close>

type_synonym Scheduler = "FileName list \<Rightarrow> nat"

function mergeMap_run ::
  "Scheduler \<Rightarrow> MaxParallel \<Rightarrow> (FileName \<Rightarrow> ChildProcessAndFileName) \<Rightarrow> MergeMapSubscriber \<Rightarrow> MergeMapSubscriber" where
  "mergeMap_run sched m project st =
     (if active st = [] then st
      else mergeMap_run sched m project
             (mergeMap_notify m project (sched (active st) mod length (active st)) st))"
  by pat_completeness auto
termination
proof (relation "measure (\<lambda>(sched, m, project, st). length (buffer st) + length (active st))")
  show "wf (measure (\<lambda>(sched, m, project, st). length (buffer st) + length (active st)))"
    by simp
next
  fix sched :: Scheduler and m :: MaxParallel
    and project :: "FileName \<Rightarrow> ChildProcessAndFileName" and st :: MergeMapSubscriber
  assume "active st \<noteq> []"
  then have "sched (active st) mod length (active st) < length (active st)"
    by simp
  then have "length (buffer (mergeMap_notify m project (sched (active st) mod length (active st)) st))
        + length (active (mergeMap_notify m project (sched (active st) mod length (active st)) st))
      < length (buffer st) + length (active st)"
    by (cases "buffer st") (auto simp: mergeMap_notify_def mergeMap_next_def Let_def)
  then show "((sched, m, project, mergeMap_notify m project (sched (active st) mod length (active st)) st),
        (sched, m, project, st))
      \<in> measure (\<lambda>(sched, m, project, st). length (buffer st) + length (active st))"
    by simp
qed

definition runInParallel ::
  "Scheduler \<Rightarrow> Platform \<Rightarrow> FileName list \<Rightarrow> ProcessToRun \<Rightarrow> MaxParallel \<Rightarrow> MergeMapSubscriber" where
  "runInParallel sched pf f p m =
     mergeMap_run sched m (execProcess pf p)
       (mergeMap_complete (foldl (mergeMap_next m) mergeMap_init f))"

text \<open>
  The two colours of \<open>chalk\<close> the program uses. What \<open>chalk\<close> does to a string depends on
  the terminal, so it is a parameter of the functions that build messages.
\<close>

datatype Color = green | red

type_synonym Chalk = "Color \<Rightarrow> JSString \<Rightarrow> JSString"

text \<open>The check mark U+2713 and the ballot cross U+2717.\<close>

definition checkMark :: JSString where
  "checkMark = [0x2713]"

definition ballotX :: JSString where
  "ballotX = [0x2717]"

definition messageForOneFile ::
  "Chalk \<Rightarrow> FileName \<Rightarrow> StdOut \<Rightarrow> ProcessCode \<Rightarrow> Verbosity \<Rightarrow> MessageToLog" where
  "messageForOneFile chalk f s p v =
     (let success = (p = 0);
          color = (if success then green else red);
          symbol = (if success then checkMark else ballotX);
          stdOutTrimmed = trim s;
          shouldLog = (\<not> success \<or> v = LogEverything);
          stdOut = (if shouldLog \<and> stdOutTrimmed \<noteq> [] then 0x0A # stdOutTrimmed else []);
          exitCode = (if success then [] else str '' (exit code: '' @ toString p @ str '')'')
      in chalk color (str ''  '' @ symbol @ str '' '' @ f @ exitCode @ stdOut))"

definition messageForSummary ::
  "Chalk \<Rightarrow> ChildProcessAndFileName list \<Rightarrow> Verbosity \<Rightarrow> MessageToLog" where
  "messageForSummary chalk p v =
     (let failures = filter (\<lambda>a. code a \<noteq> 0) p;
          summary = 0x0A # str ''Summary: ''
      in if length failures = 0
         then chalk green
                (summary @ toString (int (length p)) @ str ''/'' @ toString (int (length p)) @ str '' succeeded'')
         else
           (let failureLines =
                  foldl (\<lambda>acc e. acc @ messageForOneFile chalk (filename e) (stdout e) (code e) v
                                   @ [0x0A]) [] failures
            in chalk red
                 (summary @ toString (int (length failures)) @ str ''/'' @ toString (int (length p))
                    @ str '' failed'' @ [0x0A, 0x0A] @ failureLines)))"

definition messageForNoFile :: "Chalk \<Rightarrow> MessageToLog" where
  "messageForNoFile chalk = chalk green (str ''No file to process'')"

definition messageForHeader :: "FileName list \<Rightarrow> MessageToLog" where
  "messageForHeader f = toString (int (length f)) @ str '' files to process:'' @ [0x0A]"

text \<open>
  The \<open>pino\<close> logger is modelled by its \<open>enabled\<close> option; \<open>info\<close> appends the message to
  what has been logged when the logger is enabled and does nothing otherwise.
\<close>

type_synonym Logger = bool

definition createLogger :: "Verbosity \<Rightarrow> Logger" where
  "createLogger v = (v \<noteq> Silent)"

definition info :: "Logger \<Rightarrow> MessageToLog list \<Rightarrow> MessageToLog \<Rightarrow> MessageToLog list" where
  "info l logged msg = (if l then logged @ [msg] else logged)"

text \<open>
  What a run leaves behind: the messages logged, the shell commands run for the files,
  the results collected, and the argument of \<open>process.exit\<close> (\<open>None\<close> when it is never
  called).
\<close>

record Run =
  logged :: "MessageToLog list"
  executed :: "ShellCommand list"
  results :: "ChildProcessAndFileName list"
  exitCode :: "int option"

definition runAll ::
  "Chalk \<Rightarrow> Scheduler \<Rightarrow> Platform \<Rightarrow> FileName list \<Rightarrow> ProcessToRun \<Rightarrow> MaxParallel \<Rightarrow> Logger \<Rightarrow> Verbosity \<Rightarrow> Run" where
  "runAll chalk sched pf f p m l v =
     (let st = runInParallel sched pf f p m;
          acc = foldl (\<lambda>logged e. info l logged (messageForOneFile chalk (filename e) (stdout e) (code e) v))
                  (info l [] (messageForHeader f)) (emitted st);
          cmds = map (\<lambda>a. p @ str '' '' @ a @ str '' 2>&1'') (started st)
      in if completed st
         then \<lparr>logged = info l acc (messageForSummary chalk (emitted st) v),
               executed = cmds,
               results = emitted st,
               exitCode = Some (if list_ex (\<lambda>b. code b \<noteq> 0) (emitted st) then 1 else 0)\<rparr>
         else \<lparr>logged = acc, executed = cmds, results = emitted st, exitCode = None\<rparr>)"

definition nothingToRun :: "Chalk \<Rightarrow> Logger \<Rightarrow> Run" where
  "nothingToRun chalk l =
     \<lparr>logged = info l [] (messageForNoFile chalk), executed = [], results = [], exitCode = Some 0\<rparr>"

definition runProcessForEachFile ::
  "Chalk \<Rightarrow> Scheduler \<Rightarrow> Platform \<Rightarrow> ProcessToRun \<Rightarrow> Files \<Rightarrow> PatternWhitelist \<Rightarrow> PatternBlacklist
     \<Rightarrow> MaxParallel \<Rightarrow> Verbosity \<Rightarrow> SelectionError + Run" where
  "runProcessForEachFile chalk sched pf p f wl bl m v =
     (let l = createLogger v
      in case filesToRunOn pf f wl bl of
           Inl e \<Rightarrow> Inl e
         | Inr files \<Rightarrow>
             Inr (if length files = 0 then nothingToRun chalk l
                  else runAll chalk sched pf files p m l v))"

text \<open>
  What holds of the subscriber at every moment of a run over the files \<open>f\<close>: every file
  has its result emitted, or is running, or waits; the files started are those that do
  not wait; and, when the limit is positive, no file waits while no process runs.
\<close>

definition mergeMap_inv ::
  "MaxParallel \<Rightarrow> (FileName \<Rightarrow> ChildProcessAndFileName) \<Rightarrow> FileName list \<Rightarrow> MergeMapSubscriber \<Rightarrow> bool" where
  "mergeMap_inv m project f st \<longleftrightarrow>
     mset (emitted st) + image_mset project (mset (active st) + mset (buffer st))
       = image_mset project (mset f)
     \<and> mset (started st) + mset (buffer st) = mset f
     \<and> (0 < m \<and> buffer st \<noteq> [] \<longrightarrow> active st \<noteq> [])"

section \<open>Example surroundings\<close>

text \<open>A terminal without colours: \<open>chalk\<close> leaves the string as it is.\<close>

definition plain :: Chalk where
  "plain c s = s"

text \<open>Patterns that have not been used: the \<open>lastIndex\<close> of each is 0.\<close>

definition fresh :: Heap where
  "fresh i = 0"

text \<open>
  In every example the patterns are fresh and the sets iterate over their members by
  name; in the examples that test patterns this is also the order in which the members
  were inserted.
\<close>

text \<open>A repository where every command succeeds and prints nothing.\<close>

definition pfNothing :: Platform where
  "pfNothing =
     \<lparr>exec = (\<lambda>c. (None, [], [])), recursive = None, getenv = (\<lambda>n. None),
      lastIndexes = fresh, rank = (\<lambda>f. 0)\<rparr>"

text \<open>
  A repository where \<open>git diff\<close> against the target branch prints \<open>a.ts\<close> and the staged
  diff prints \<open>b.ts\<close>, each followed by a line feed.
\<close>

definition pfDiff :: Platform where
  "pfDiff =
     \<lparr>exec = (\<lambda>c.
        if c = str ''git --no-pager diff --name-only --diff-filter=AM origin/master...HEAD''
        then (None, str ''a.ts'' @ [0x0A], [])
        else if c = str ''git --no-pager diff --name-only --diff-filter=AM --staged''
        then (None, str ''b.ts'' @ [0x0A], [])
        else (None, [], [])),
      recursive = None,
      getenv = (\<lambda>n. None),
      lastIndexes = fresh,
      rank = (\<lambda>f. 0)\<rparr>"



text \<open>
  A repository with two files in its index and a linter that fails on \<open>b.ts\<close> with exit
  code 1 and the output \<open>bad syntax\<close>.
\<close>

definition pfLint :: Platform where
  "pfLint =
     \<lparr>exec = (\<lambda>c.
        if c = str ''git ls-files''
        then (None, str ''a.ts'' @ [0x0A] @ str ''b.ts'' @ [0x0A], [])
        else if c = str ''lint b.ts 2>&1''
        then (Some (ExecException 1), str ''bad syntax'' @ [0x0A], [])
        else (None, [], [])),
      recursive = None,
      getenv = (\<lambda>n. None),
      lastIndexes = fresh,
      rank = (\<lambda>f. 0)\<rparr>"

text \<open>An empty working directory.\<close>

definition pfEmpty :: Platform where
  "pfEmpty =
     \<lparr>exec = (\<lambda>c. (None, [], [])), recursive = Some [], getenv = (\<lambda>n. None),
      lastIndexes = fresh, rank = (\<lambda>f. 0)\<rparr>"






section \<open>Properties of the functions\<close>

declare mergeMap_run.simps [simp del]

subsection \<open>Trimming\<close>

lemma trim_Nil: "trim [] = []"
  by (simp add: trim_def)

text \<open>A string is its trimmed part between two runs of white space.\<close>

lemma trim_rest:
  "dropWhile isWhiteSpace s
     = trim s @ rev (takeWhile isWhiteSpace (rev (dropWhile isWhiteSpace s)))"
proof -
  define t where "t = dropWhile isWhiteSpace s"
  have "t = rev (takeWhile isWhiteSpace (rev t) @ dropWhile isWhiteSpace (rev t))"
    by (simp only: takeWhile_dropWhile_id rev_rev_ident)
  then have "t = rev (dropWhile isWhiteSpace (rev t)) @ rev (takeWhile isWhiteSpace (rev t))"
    by (simp only: rev_append)
  then show ?thesis
    unfolding trim_def t_def .
qed

lemma trim_between:
  "s = takeWhile isWhiteSpace s @ trim s
         @ rev (takeWhile isWhiteSpace (rev (dropWhile isWhiteSpace s)))"
proof -
  have "s = takeWhile isWhiteSpace s @ dropWhile isWhiteSpace s"
    by simp
  also have "dropWhile isWhiteSpace s
      = trim s @ rev (takeWhile isWhiteSpace (rev (dropWhile isWhiteSpace s)))"
    by (rule trim_rest)
  finally show ?thesis .
qed

text \<open>The trimmed part neither starts nor ends with white space.\<close>

lemma trim_ends:
  assumes "trim s \<noteq> []"
  shows "\<not> isWhiteSpace (hd (trim s)) \<and> \<not> isWhiteSpace (last (trim s))"
proof -
  define t where "t = dropWhile isWhiteSpace s"
  define u where "u = dropWhile isWhiteSpace (rev t)"
  have tr: "trim s = rev u"
    by (simp add: trim_def t_def u_def)
  with assms have u: "u \<noteq> []" by simp
  then have "\<not> isWhiteSpace (hd u)"
    unfolding u_def by (rule hd_dropWhile)
  with u tr have l: "\<not> isWhiteSpace (last (trim s))"
    by (simp add: last_rev)
  have d: "t = trim s @ rev (takeWhile isWhiteSpace (rev t))"
    unfolding t_def by (rule trim_rest)
  have "hd t = hd (trim s @ rev (takeWhile isWhiteSpace (rev t)))"
    by (rule arg_cong [OF d])
  also have "\<dots> = hd (trim s)"
    using assms by simp
  finally have h: "hd t = hd (trim s)" .
  have "t \<noteq> []"
    by (subst d) (simp add: assms)
  then have "\<not> isWhiteSpace (hd t)"
    unfolding t_def by (rule hd_dropWhile)
  with h l show ?thesis
    by simp
qed

lemma dropWhile_unchanged: "xs \<noteq> [] \<Longrightarrow> \<not> P (hd xs) \<Longrightarrow> dropWhile P xs = xs"
  by (cases xs) simp_all

text \<open>Trimming a trimmed string changes nothing.\<close>

lemma trim_trim: "trim (trim s) = trim s"
proof (cases "trim s = []")
  case True
  then show ?thesis by (simp add: trim_Nil)
next
  case False
  then have h: "\<not> isWhiteSpace (hd (trim s))" and l: "\<not> isWhiteSpace (last (trim s))"
    using trim_ends by blast+
  from False h have "dropWhile isWhiteSpace (trim s) = trim s"
    by (rule dropWhile_unchanged)
  moreover from False l have "dropWhile isWhiteSpace (rev (trim s)) = rev (trim s)"
    by (intro dropWhile_unchanged) (simp_all add: hd_rev)
  ultimately show ?thesis
    by (simp add: trim_def [of "trim s"])
qed

text \<open>A string made of white space only trims to the empty string.\<close>

lemma trim_only_WhiteSpace:
  assumes "\<forall>c\<in>set s. isWhiteSpace c"
  shows "trim s = []"
proof -
  from assms have d: "dropWhile isWhiteSpace s = []"
    by simp
  show ?thesis
    unfolding trim_def d by simp
qed

subsection \<open>Selecting and filtering\<close>














text \<open>
  The target branch is resolved in a fixed order: \<open>STASH_PULL_REQUEST_BRANCH_DESTINATION\<close>
  when it is set to a non-empty string (under \<open>stash/\<close>), else \<open>CHANGE_TARGET\<close> when it
  is (under \<open>upstream/\<close>), else \<open>origin/master\<close>.
\<close>

lemma targetBranch_priority:
  "targetBranch pf =
     (if getenv pf (str ''STASH_PULL_REQUEST_BRANCH_DESTINATION'') \<notin> {None, Some []}
      then str ''stash/'' @ the (getenv pf (str ''STASH_PULL_REQUEST_BRANCH_DESTINATION''))
      else if getenv pf (str ''CHANGE_TARGET'') \<notin> {None, Some []}
      then str ''upstream/'' @ the (getenv pf (str ''CHANGE_TARGET''))
      else str ''origin/master'')"
  by (simp add: targetBranch_def split: option.split list.split)

subsection \<open>Messages\<close>

lemma messageForOneFile_success:
  "messageForOneFile chalk f s 0 v =
     chalk green (str ''  '' @ checkMark @ str '' '' @ f
       @ (if v = LogEverything \<and> trim s \<noteq> [] then 0x0A # trim s else []))"
  by (simp add: messageForOneFile_def Let_def)

lemma messageForOneFile_failure:
  "p \<noteq> 0 \<Longrightarrow>
   messageForOneFile chalk f s p v =
     chalk red (str ''  '' @ ballotX @ str '' '' @ f @ str '' (exit code: '' @ toString p @ str '')''
       @ (if trim s \<noteq> [] then 0x0A # trim s else []))"
  by (simp add: messageForOneFile_def Let_def)

lemma filename_execProcess: "filename (execProcess pf p f) = f"
  by (simp add: execProcess_def Let_def)

text \<open>\<open>execP\<close> has trimmed the output a result holds.\<close>

lemma trim_stdout_execProcess: "trim (stdout (execProcess pf p f)) = stdout (execProcess pf p f)"
  by (simp add: execProcess_def execP_def Let_def trim_trim split: prod.split option.split)

lemma code_execProcess:
  "code (execProcess pf p f) =
     (case fst (exec pf (p @ str '' '' @ f @ str '' 2>&1'')) of None \<Rightarrow> 0 | Some e \<Rightarrow> errCode e)"
  by (simp add: execProcess_def execP_def Let_def split: prod.split option.split)

lemma error_execProcess:
  "error (execProcess pf p f) = fst (exec pf (p @ str '' '' @ f @ str '' 2>&1''))"
  by (simp add: execProcess_def execP_def Let_def split: prod.split option.split)

lemma execProcess_lint_b:
  "execProcess pfLint (str ''lint'') (str ''b.ts'')
     = \<lparr>code = 1, stdout = str ''bad syntax'', stderr = [], error = Some (ExecException 1),
        filename = str ''b.ts''\<rparr>"
  by (simp add: execProcess_def execP_def Let_def pfLint_def trim_def isWhiteSpace_def str_def)

lemma execProcess_lint_a:
  "execProcess pfLint (str ''lint'') (str ''a.ts'')
     = \<lparr>code = 0, stdout = [], stderr = [], error = None, filename = str ''a.ts''\<rparr>"
  by (simp add: execProcess_def execP_def Let_def pfLint_def trim_Nil str_def)

lemma foldl_append_concat: "foldl (\<lambda>acc e. acc @ g e) a xs = a @ concat (map g xs)"
  by (induction xs arbitrary: a) simp_all

lemma foldl_unchanged: "foldl (\<lambda>logged e. logged) a xs = a"
  by (induction xs arbitrary: a) simp_all

lemma foldl_snoc_map: "foldl (\<lambda>logged e. logged @ [g e]) a xs = a @ map g xs"
  by (induction xs arbitrary: a) simp_all

subsection \<open>The bounded executor\<close>

lemma mset_without_nth:
  "i < length xs \<Longrightarrow> add_mset (xs ! i) (mset (take i xs) + mset (drop (Suc i) xs)) = mset xs"
proof -
  assume "i < length xs"
  then have "xs = take i xs @ xs ! i # drop (Suc i) xs"
    by (rule id_take_nth_drop)
  then have "mset xs = mset (take i xs @ xs ! i # drop (Suc i) xs)"
    by simp
  then show ?thesis by simp
qed

lemma mergeMap_inv_next:
  assumes "mergeMap_inv m project f st" and "emitted st = []"
  shows "mergeMap_inv m project (f @ [a]) (mergeMap_next m st a)
    \<and> emitted (mergeMap_next m st a) = []
    \<and> hasCompleted (mergeMap_next m st a) = hasCompleted st
    \<and> completed (mergeMap_next m st a) = completed st"
  using assms by (auto simp: mergeMap_inv_def mergeMap_next_def)

text \<open>After the source has emitted every file, nothing is emitted or completed yet.\<close>

lemma mergeMap_inv_subscribe:
  "mergeMap_inv m project f (foldl (mergeMap_next m) mergeMap_init f)
   \<and> emitted (foldl (mergeMap_next m) mergeMap_init f) = []
   \<and> \<not> completed (foldl (mergeMap_next m) mergeMap_init f)"
proof (induction f rule: rev_induct)
  case Nil
  show ?case by (simp add: mergeMap_inv_def mergeMap_init_def)
next
  case (snoc a f)
  then show ?case
    using mergeMap_inv_next [of m project f "foldl (mergeMap_next m) mergeMap_init f" a]
    by simp
qed

lemma mergeMap_inv_complete:
  assumes "mergeMap_inv m project f st" and "\<not> completed st"
  shows "mergeMap_inv m project f (mergeMap_complete st)
    \<and> hasCompleted (mergeMap_complete st)
    \<and> (completed (mergeMap_complete st)
         \<longleftrightarrow> active (mergeMap_complete st) = [] \<and> buffer (mergeMap_complete st) = [])"
  using assms by (auto simp: mergeMap_inv_def mergeMap_complete_def)

text \<open>The end of a running process keeps the invariant.\<close>

lemma mergeMap_inv_notify:
  assumes "mergeMap_inv m project f st" and "i < length (active st)"
    and "hasCompleted st"
    and "completed st \<longleftrightarrow> active st = [] \<and> buffer st = []"
  shows "mergeMap_inv m project f (mergeMap_notify m project i st)
    \<and> hasCompleted (mergeMap_notify m project i st)
    \<and> (completed (mergeMap_notify m project i st)
         \<longleftrightarrow> active (mergeMap_notify m project i st) = []
             \<and> buffer (mergeMap_notify m project i st) = [])"
proof -
  define rest where "rest = take i (active st) @ drop (Suc i) (active st)"
  define a where "a = active st ! i"
  have act: "mset (active st) = add_mset a (mset rest)"
    using mset_without_nth [OF assms(2)] by (simp add: rest_def a_def)
  have ne: "active st \<noteq> []"
    using assms(2) by auto
  have step: "mergeMap_notify m project i st =
      (case buffer st of
         b # bs \<Rightarrow>
           mergeMap_next m (st\<lparr>emitted := emitted st @ [project a], active := rest, buffer := bs\<rparr>) b
       | [] \<Rightarrow>
           if rest = [] \<and> hasCompleted st
           then st\<lparr>emitted := emitted st @ [project a], active := rest, completed := True\<rparr>
           else st\<lparr>emitted := emitted st @ [project a], active := rest\<rparr>)"
    unfolding mergeMap_notify_def Let_def rest_def [symmetric] a_def [symmetric]
    by (simp split: list.split)
  show ?thesis
  proof (cases "buffer st")
    case Nil
    with assms(1,3,4) act ne show ?thesis
      by (auto simp: step mergeMap_inv_def)
  next
    case (Cons b bs)
    with assms(1,3,4) act ne show ?thesis
      by (auto simp: step mergeMap_inv_def mergeMap_next_def)
  qed
qed

text \<open>A run ends with no process running, and has completed exactly when no file waits.\<close>

lemma mergeMap_inv_run:
  assumes "mergeMap_inv m project f st" and "hasCompleted st"
    and "completed st \<longleftrightarrow> active st = [] \<and> buffer st = []"
  shows "mergeMap_inv m project f (mergeMap_run sched m project st)
    \<and> active (mergeMap_run sched m project st) = []
    \<and> (completed (mergeMap_run sched m project st)
         \<longleftrightarrow> buffer (mergeMap_run sched m project st) = [])"
  using assms
proof (induction sched m project st rule: mergeMap_run.induct)
  case (1 sched m project st)
  show ?case
  proof (cases "active st = []")
    case True
    then have "mergeMap_run sched m project st = st"
      by (subst mergeMap_run.simps) simp
    with True "1.prems" show ?thesis by simp
  next
    case False
    define st' where "st' = mergeMap_notify m project (sched (active st) mod length (active st)) st"
    from False have i: "sched (active st) mod length (active st) < length (active st)"
      by simp
    have n: "mergeMap_inv m project f st' \<and> hasCompleted st'
        \<and> (completed st' \<longleftrightarrow> active st' = [] \<and> buffer st' = [])"
      unfolding st'_def
      by (rule mergeMap_inv_notify [OF "1.prems"(1) i "1.prems"(2) "1.prems"(3)])
    have "mergeMap_inv m project f (mergeMap_run sched m project st')
      \<and> active (mergeMap_run sched m project st') = []
      \<and> (completed (mergeMap_run sched m project st')
           \<longleftrightarrow> buffer (mergeMap_run sched m project st') = [])"
      unfolding st'_def
      by (rule "1.IH" [OF False]) (use n in \<open>simp_all add: st'_def\<close>)
    moreover have "mergeMap_run sched m project st = mergeMap_run sched m project st'"
      using False by (subst mergeMap_run.simps) (simp add: st'_def)
    ultimately show ?thesis by simp
  qed
qed

lemma runInParallel_inv:
  "mergeMap_inv m (execProcess pf p) f (runInParallel sched pf f p m)
   \<and> active (runInParallel sched pf f p m) = []
   \<and> (completed (runInParallel sched pf f p m) \<longleftrightarrow> buffer (runInParallel sched pf f p m) = [])"
proof -
  define st0 where "st0 = foldl (mergeMap_next m) mergeMap_init f"
  have s: "mergeMap_inv m (execProcess pf p) f st0 \<and> emitted st0 = [] \<and> \<not> completed st0"
    unfolding st0_def by (rule mergeMap_inv_subscribe)
  have c: "mergeMap_inv m (execProcess pf p) f (mergeMap_complete st0)
    \<and> hasCompleted (mergeMap_complete st0)
    \<and> (completed (mergeMap_complete st0)
         \<longleftrightarrow> active (mergeMap_complete st0) = [] \<and> buffer (mergeMap_complete st0) = [])"
    by (rule mergeMap_inv_complete) (use s in simp_all)
  then have "mergeMap_inv m (execProcess pf p) f
        (mergeMap_run sched m (execProcess pf p) (mergeMap_complete st0))
    \<and> active (mergeMap_run sched m (execProcess pf p) (mergeMap_complete st0)) = []
    \<and> (completed (mergeMap_run sched m (execProcess pf p) (mergeMap_complete st0))
        \<longleftrightarrow> buffer (mergeMap_run sched m (execProcess pf p) (mergeMap_complete st0)) = [])"
    by (intro mergeMap_inv_run) simp_all
  then show ?thesis
    by (simp add: runInParallel_def st0_def)
qed

text \<open>
  When the stream has completed, whatever the scheduler picked and whatever the
  processes returned, the results emitted are those of the files, each file once, and a
  process was started for each file once.
\<close>

lemma runInParallel_completed:
  assumes "completed (runInParallel sched pf f p m)"
  shows "mset (emitted (runInParallel sched pf f p m)) = image_mset (execProcess pf p) (mset f)
    \<and> mset (started (runInParallel sched pf f p m)) = mset f"
proof -
  define st where "st = runInParallel sched pf f p m"
  have inv: "mergeMap_inv m (execProcess pf p) f st" and a: "active st = []"
    and c: "completed st \<longleftrightarrow> buffer st = []"
    unfolding st_def using runInParallel_inv [of m pf p f sched] by simp_all
  from c assms have b: "buffer st = []"
    by (simp add: st_def)
  with inv a have "mset (emitted st) = image_mset (execProcess pf p) (mset f)
      \<and> mset (started st) = mset f"
    by (simp add: mergeMap_inv_def)
  then show ?thesis by (simp add: st_def)
qed

text \<open>With the limit 0 every file waits for ever: no process starts and nothing completes.\<close>

lemma runInParallel_limit_0:
  "runInParallel sched pf f p 0
     = \<lparr>buffer = f, active = [], hasCompleted = True, started = [], emitted = [],
        completed = (f = [])\<rparr>"
proof -
  have "foldl (mergeMap_next 0) st f = st\<lparr>buffer := buffer st @ f\<rparr>" for st
    by (induction f arbitrary: st) (simp_all add: mergeMap_next_def)
  then have "foldl (mergeMap_next 0) mergeMap_init f = mergeMap_init\<lparr>buffer := f\<rparr>"
    by (simp add: mergeMap_init_def)
  then show ?thesis
    by (cases f)
      (simp_all add: runInParallel_def mergeMap_complete_def mergeMap_init_def mergeMap_run.simps)
qed

text \<open>The stream completes exactly when the limit is positive or there is no file.\<close>

lemma runInParallel_completed_iff:
  "completed (runInParallel sched pf f p m) \<longleftrightarrow> 0 < m \<or> f = []"
proof (cases "m = 0")
  case True
  then show ?thesis by (simp add: runInParallel_limit_0)
next
  case False
  define st where "st = runInParallel sched pf f p m"
  have inv: "mergeMap_inv m (execProcess pf p) f st" and a: "active st = []"
    and c: "completed st \<longleftrightarrow> buffer st = []"
    unfolding st_def using runInParallel_inv [of m pf p f sched] by simp_all
  from inv a False have "buffer st = []"
    by (cases "buffer st") (simp_all add: mergeMap_inv_def)
  with c False show ?thesis by (simp add: st_def)
qed

lemma exitCode_runAll_iff:
  "exitCode (runAll chalk sched pf f p m l v) \<noteq> None \<longleftrightarrow> completed (runInParallel sched pf f p m)"
  by (simp add: runAll_def Let_def)

lemma runAll_completed:
  assumes "completed (runInParallel sched pf f p m)"
  shows "runAll chalk sched pf f p m l v =
    \<lparr>logged = info l
        (foldl (\<lambda>logged e. info l logged (messageForOneFile chalk (filename e) (stdout e) (code e) v))
           (info l [] (messageForHeader f)) (emitted (runInParallel sched pf f p m)))
        (messageForSummary chalk (emitted (runInParallel sched pf f p m)) v),
      executed = map (\<lambda>a. p @ str '' '' @ a @ str '' 2>&1'') (started (runInParallel sched pf f p m)),
      results = emitted (runInParallel sched pf f p m),
      exitCode = Some (if list_ex (\<lambda>b. code b \<noteq> 0) (emitted (runInParallel sched pf f p m))
                       then 1 else 0)\<rparr>"
  using assms by (simp add: runAll_def Let_def)

text \<open>A disabled logger logs nothing.\<close>

lemma logged_runAll_disabled: "logged (runAll chalk sched pf f p m False v) = []"
  by (simp add: runAll_def Let_def foldl_unchanged info_def)

lemma logged_runAll_enabled:
  assumes "completed (runInParallel sched pf f p m)"
  shows "logged (runAll chalk sched pf f p m True v) =
    messageForHeader f
      # map (\<lambda>e. messageForOneFile chalk (filename e) (stdout e) (code e) v)
          (results (runAll chalk sched pf f p m True v))
      @ [messageForSummary chalk (results (runAll chalk sched pf f p m True v)) v]"
  by (simp add: runAll_completed [OF assms] foldl_snoc_map info_def)

lemma results_runAll:
  assumes "completed (runInParallel sched pf f p m)"
  shows "mset (results (runAll chalk sched pf f p m l v)) = image_mset (execProcess pf p) (mset f)"
  using runInParallel_completed [OF assms]
  by (simp add: runAll_completed [OF assms])

lemma set_results_runAll:
  assumes "completed (runInParallel sched pf f p m)"
  shows "set (results (runAll chalk sched pf f p m l v)) = execProcess pf p ` set f"
proof -
  have "set_mset (mset (results (runAll chalk sched pf f p m l v)))
      = set_mset (image_mset (execProcess pf p) (mset f))"
    by (simp only: results_runAll [OF assms])
  then show ?thesis by simp
qed

lemma exitCode_runAll:
  assumes "completed (runInParallel sched pf f p m)"
  shows "exitCode (runAll chalk sched pf f p m l v)
    = Some (if \<exists>a\<in>set f. code (execProcess pf p a) \<noteq> 0 then 1 else 0)"
proof -
  have "set (emitted (runInParallel sched pf f p m)) = execProcess pf p ` set f"
    using set_results_runAll [OF assms, of chalk l v] by (simp add: runAll_completed [OF assms])
  then show ?thesis
    by (simp add: runAll_completed [OF assms] list_ex_iff)
qed

subsection \<open>Runs\<close>

lemma filesToRunOn_lint: "filesToRunOn pfLint IndexedInGit [] [] = Inr [str ''a.ts'', str ''b.ts'']"
  by (simp add: filesToRunOn_def pfLint_def indexedInGit_def execP_def linesFromStdout_def
      trim_def isWhiteSpace_def iterate_def patternFilter_def keepWhitelisted_def
      dropBlacklisted_def sorted_list_of_fset.rep_eq str_def)

lemma filesToRunOn_empty: "filesToRunOn pfEmpty AllInPwd [] [] = Inr []"
  by (simp add: filesToRunOn_def pfEmpty_def allInPwd_def iterate_def patternFilter_def
      keepWhitelisted_def dropBlacklisted_def sorted_list_of_fset.rep_eq)

lemma failureLines_any_verbosity:
  "map (\<lambda>e. messageForOneFile chalk (filename e) (stdout e) (code e) v @ [0x0A])
       (filter (\<lambda>a. code a \<noteq> 0) rs)
   = map (\<lambda>e. messageForOneFile chalk (filename e) (stdout e) (code e) v' @ [0x0A])
       (filter (\<lambda>a. code a \<noteq> 0) rs)"
  by (rule map_cong) (auto simp: messageForOneFile_failure)

text \<open>\<open>runAll\<close> ends by \<open>process.exit\<close> exactly when the limit is positive or there is no file.\<close>

lemma runAll_exits_iff:
  "exitCode (runAll chalk sched pf f p m l v) \<noteq> None \<longleftrightarrow> 0 < m \<or> f = []"
  by (simp only: exitCode_runAll_iff runInParallel_completed_iff)

section \<open>The claims\<close>

text \<open>
  C1, as the code has it: the empty string splits into one empty line, so
  \<open>linesFromStdout\<close> returns the set whose only member is the empty file name, not the
  empty set. With a \<open>git\<close> that prints nothing, each of the three strategies that parse
  its output selects that set, \<open>filesToRunOn\<close> passes on one file, the empty name, and
  \<open>runProcessForEachFile\<close> runs the process on it where it tests for no file.
\<close>

theorem linesFromStdout_empty_stdout:
  "linesFromStdout [] = {|[]|}
   \<and> linesFromStdout [] \<noteq> {||}
   \<and> indexedInGit pfNothing = Inr {|[]|}
   \<and> stagedInGit pfNothing = Inr {|[]|}
   \<and> modifiedSinceOriginMasterInGit pfNothing = Inr {|[]|}
   \<and> filesToRunOn pfNothing StagedInGit [] [] = Inr [[]]
   \<and> runProcessForEachFile plain (\<lambda>a. 0) pfNothing (str ''lint'') StagedInGit [] [] 1 LogErrors
       = Inr (runAll plain (\<lambda>a. 0) pfNothing [[]] (str ''lint'') 1 True LogErrors)"
  by (simp add: linesFromStdout_def indexedInGit_def stagedInGit_def
      modifiedSinceOriginMasterInGit_def execP_def trim_Nil pfNothing_def filesToRunOn_def
      iterate_def patternFilter_def keepWhitelisted_def dropBlacklisted_def
      sorted_list_of_fset.rep_eq runProcessForEachFile_def createLogger_def)

text \<open>
  C2, as the code has it: \<open>modifiedSinceOriginMasterInGit\<close> parses the two outputs joined
  with nothing between them, and \<open>execP\<close> has trimmed the line feed that ended the
  first. Where the diff against \<open>origin/master\<close> prints \<open>a.ts\<close> and the staged diff
  prints \<open>b.ts\<close>, the set selected holds the one name \<open>a.tsb.ts\<close>, while the union of
  the two parsed outputs is the set of \<open>a.ts\<close> and \<open>b.ts\<close>.
\<close>

theorem modifiedSinceOriginMasterInGit_joins_outputs:
  "modifiedSinceOriginMasterInGit pfDiff = Inr {|str ''a.tsb.ts''|}
   \<and> execP pfDiff (str ''git --no-pager diff --name-only --diff-filter=AM origin/master...HEAD'')
       = Inr \<lparr>code = 0, stdout = str ''a.ts'', stderr = [], error = None\<rparr>
   \<and> execP pfDiff (str ''git --no-pager diff --name-only --diff-filter=AM --staged'')
       = Inr \<lparr>code = 0, stdout = str ''b.ts'', stderr = [], error = None\<rparr>
   \<and> linesFromStdout (str ''a.ts'') |\<union>| linesFromStdout (str ''b.ts'') = {|str ''a.ts'', str ''b.ts''|}
   \<and> modifiedSinceOriginMasterInGit pfDiff
       \<noteq> Inr (linesFromStdout (str ''a.ts'') |\<union>| linesFromStdout (str ''b.ts''))"
  by (auto simp: modifiedSinceOriginMasterInGit_def pfDiff_def execP_def targetBranch_def
      linesFromStdout_def trim_def isWhiteSpace_def str_def)




text \<open>
  C4: when \<open>runAll\<close> ends by \<open>process.exit\<close>, it exits with 1 when the code of some
  collected result is not 0 and with 0 otherwise; the collected results are those of the
  files, so the exit code is 1 exactly when the process of some file ends with a code
  other than 0. A process that exits with a non-zero code and one that cannot be spawned
  both reach \<open>execP\<close> as an error of \<open>exec\<close>, whose code the result keeps: where no error
  of \<open>exec\<close> carries the code 0 (none does in Node), the results whose code is not 0 are
  exactly those \<open>exec\<close> reported an error for.
\<close>

theorem runAll_exit_status:
  assumes "exitCode (runAll chalk sched pf f p m l v) \<noteq> None"
  shows "exitCode (runAll chalk sched pf f p m l v)
      = Some (if (\<exists>r\<in>set (results (runAll chalk sched pf f p m l v)). code r \<noteq> 0) then 1 else 0)
    \<and> (\<exists>r\<in>set (results (runAll chalk sched pf f p m l v)). code r \<noteq> 0)
        = (\<exists>a\<in>set f. code (execProcess pf p a) \<noteq> 0)
    \<and> ((\<forall>c e out errout. exec pf c = (Some e, out, errout) \<longrightarrow> errCode e \<noteq> 0) \<longrightarrow>
        (\<forall>r\<in>set (results (runAll chalk sched pf f p m l v)). (code r \<noteq> 0) = (error r \<noteq> None)))"
proof -
  from assms have ended: "completed (runInParallel sched pf f p m)"
    by (simp only: exitCode_runAll_iff)
  have rs: "set (results (runAll chalk sched pf f p m l v)) = execProcess pf p ` set f"
    by (rule set_results_runAll [OF ended])
  have "(code (execProcess pf p a) \<noteq> 0) = (error (execProcess pf p a) \<noteq> None)"
    if "\<forall>c e out errout. exec pf c = (Some e, out, errout) \<longrightarrow> errCode e \<noteq> 0" for a
    using that by (cases "exec pf (p @ str '' '' @ a @ str '' 2>&1'')")
      (auto simp: code_execProcess error_execProcess split: option.split)
  with rs show ?thesis
    by (simp add: exitCode_runAll [OF ended])
qed

text \<open>
  The linter on two files, two at a time: the run exits with 1, and on one file that
  passes it exits with 0.
\<close>

theorem runAll_exit_status_witness:
  "exitCode (runAll plain (\<lambda>a. 0) pfLint [str ''a.ts'', str ''b.ts''] (str ''lint'') 2 True LogErrors) \<noteq> None
   \<and> exitCode (runAll plain (\<lambda>a. 0) pfLint [str ''a.ts'', str ''b.ts''] (str ''lint'') 2 True LogErrors) = Some 1
   \<and> exitCode (runAll plain (\<lambda>a. 0) pfLint [str ''a.ts''] (str ''lint'') 2 True LogErrors) = Some 0
   \<and> list_all (\<lambda>r. (code r \<noteq> 0) = (error r \<noteq> None))
        (results (runAll plain (\<lambda>a. 0) pfLint [str ''a.ts'', str ''b.ts''] (str ''lint'') 2 True LogErrors))"
proof -
  have x2: "exitCode (runAll plain (\<lambda>a. 0) pfLint [str ''a.ts'', str ''b.ts''] (str ''lint'') 2 True LogErrors) \<noteq> None"
    by (rule runAll_exits_iff [THEN iffD2]) simp
  have x1: "exitCode (runAll plain (\<lambda>a. 0) pfLint [str ''a.ts''] (str ''lint'') 2 True LogErrors) \<noteq> None"
    by (rule runAll_exits_iff [THEN iffD2]) simp
  have node: "\<forall>c e out errout. exec pfLint c = (Some e, out, errout) \<longrightarrow> errCode e \<noteq> 0"
    by (auto simp: pfLint_def split: if_splits)
  note two = runAll_exit_status [OF x2]
  note one = runAll_exit_status [OF x1]
  from two [THEN conjunct1] two [THEN conjunct2, THEN conjunct1]
  have e2: "exitCode (runAll plain (\<lambda>a. 0) pfLint [str ''a.ts'', str ''b.ts''] (str ''lint'') 2 True LogErrors) = Some 1"
    by (simp add: execProcess_lint_a execProcess_lint_b)
  from one [THEN conjunct1] one [THEN conjunct2, THEN conjunct1]
  have e1: "exitCode (runAll plain (\<lambda>a. 0) pfLint [str ''a.ts''] (str ''lint'') 2 True LogErrors) = Some 0"
    by (simp add: execProcess_lint_a)
  have "\<forall>r\<in>set (results (runAll plain (\<lambda>a. 0) pfLint [str ''a.ts'', str ''b.ts''] (str ''lint'') 2 True LogErrors)).
      (code r \<noteq> 0) = (error r \<noteq> None)"
    by (rule two [THEN conjunct2, THEN conjunct2, THEN mp, OF node])
  then have la: "list_all (\<lambda>r. (code r \<noteq> 0) = (error r \<noteq> None))
      (results (runAll plain (\<lambda>a. 0) pfLint [str ''a.ts'', str ''b.ts''] (str ''lint'') 2 True LogErrors))"
    by (simp only: list_all_iff)
  from x2 e2 e1 la show ?thesis
    by (intro conjI)
qed

text \<open>
  C5: the stream of \<open>runInParallel\<close> completes whenever the limit is positive, for
  every scheduler and whatever each process returns. Once it has completed, the results
  it has emitted, which \<open>runAll\<close> collects, are the results of the files, each file's
  once: as many as the files, under the same file names. One command was run for each
  file, and the run ends by \<open>process.exit\<close>.
\<close>

theorem runInParallel_one_result_per_file:
  "(0 < m \<longrightarrow> completed (runInParallel sched pf f p m))
   \<and> (completed (runInParallel sched pf f p m) \<longrightarrow>
        mset (emitted (runInParallel sched pf f p m)) = image_mset (execProcess pf p) (mset f)
      \<and> mset (map filename (emitted (runInParallel sched pf f p m))) = mset f
      \<and> length (emitted (runInParallel sched pf f p m)) = length f
      \<and> results (runAll chalk sched pf f p m l v) = emitted (runInParallel sched pf f p m)
      \<and> mset (executed (runAll chalk sched pf f p m l v))
          = image_mset (\<lambda>a. p @ str '' '' @ a @ str '' 2>&1'') (mset f)
      \<and> exitCode (runAll chalk sched pf f p m l v) \<noteq> None)"
proof (intro conjI impI)
  assume "0 < m"
  then show "completed (runInParallel sched pf f p m)"
    by (simp add: runInParallel_completed_iff)
next
  assume ended: "completed (runInParallel sched pf f p m)"
  define st where "st = runInParallel sched pf f p m"
  have e: "mset (emitted st) = image_mset (execProcess pf p) (mset f)"
    and s: "mset (started st) = mset f"
    unfolding st_def using runInParallel_completed [OF ended] by simp_all
  have "mset (map filename (emitted st)) = image_mset filename (mset (emitted st))"
    by simp
  also have "\<dots> = image_mset (\<lambda>a. filename (execProcess pf p a)) (mset f)"
    by (simp only: e image_mset.compositionality comp_def)
  also have "\<dots> = mset f"
    by (simp add: filename_execProcess)
  finally have n: "mset (map filename (emitted st)) = mset f" .
  have "size (mset (emitted st)) = size (mset f)"
    by (simp only: e size_image_mset)
  then have len: "length (emitted st) = length f"
    by simp
  have r: "results (runAll chalk sched pf f p m l v) = emitted st"
    and x: "executed (runAll chalk sched pf f p m l v)
      = map (\<lambda>a. p @ str '' '' @ a @ str '' 2>&1'') (started st)"
    and q: "exitCode (runAll chalk sched pf f p m l v) \<noteq> None"
    by (simp_all add: runAll_completed [OF ended] st_def)
  have "mset (executed (runAll chalk sched pf f p m l v))
      = image_mset (\<lambda>a. p @ str '' '' @ a @ str '' 2>&1'') (mset (started st))"
    by (simp only: x mset_map)
  with s have y: "mset (executed (runAll chalk sched pf f p m l v))
      = image_mset (\<lambda>a. p @ str '' '' @ a @ str '' 2>&1'') (mset f)"
    by simp
  from e show "mset (emitted (runInParallel sched pf f p m)) = image_mset (execProcess pf p) (mset f)"
    by (simp only: st_def)
  from n show "mset (map filename (emitted (runInParallel sched pf f p m))) = mset f"
    by (simp only: st_def)
  from len show "length (emitted (runInParallel sched pf f p m)) = length f"
    by (simp only: st_def)
  from r show "results (runAll chalk sched pf f p m l v) = emitted (runInParallel sched pf f p m)"
    by (simp only: st_def)
  from y show "mset (executed (runAll chalk sched pf f p m l v))
      = image_mset (\<lambda>a. p @ str '' '' @ a @ str '' 2>&1'') (mset f)" .
  from q show "exitCode (runAll chalk sched pf f p m l v) \<noteq> None" .
qed

text \<open>The linter on two files, one at a time: both results are there, the failure included.\<close>

theorem runInParallel_one_result_per_file_witness:
  "(0::nat) < 1
   \<and> completed (runInParallel (\<lambda>a. 0) pfLint [str ''a.ts'', str ''b.ts''] (str ''lint'') 1)
   \<and> mset (emitted (runInParallel (\<lambda>a. 0) pfLint [str ''a.ts'', str ''b.ts''] (str ''lint'') 1))
       = {#\<lparr>code = 0, stdout = [], stderr = [], error = None, filename = str ''a.ts''\<rparr>,
           \<lparr>code = 1, stdout = str ''bad syntax'', stderr = [], error = Some (ExecException 1),
             filename = str ''b.ts''\<rparr>#}
   \<and> length (emitted (runInParallel (\<lambda>a. 0) pfLint [str ''a.ts'', str ''b.ts''] (str ''lint'') 1)) = 2"
proof -
  have m: "(0::nat) < 1" by simp
  note t = runInParallel_one_result_per_file
    [of 1 "\<lambda>a. 0" pfLint "[str ''a.ts'', str ''b.ts'']" "str ''lint''" plain True LogErrors]
  have c: "completed (runInParallel (\<lambda>a. 0) pfLint [str ''a.ts'', str ''b.ts''] (str ''lint'') 1)"
    by (rule t [THEN conjunct1, THEN mp, OF m])
  from t [THEN conjunct2, THEN mp, OF c] m c show ?thesis
    by (simp add: execProcess_lint_a execProcess_lint_b)
qed

text \<open>
  C6, as stated, fails under \<open>Silent\<close>: in an empty directory the run starts no process
  and exits with 0, and logs nothing.
\<close>

theorem runProcessForEachFile_no_file_counterexample:
  "filesToRunOn pfEmpty AllInPwd [] [] = Inr []
   \<and> runProcessForEachFile plain (\<lambda>a. 0) pfEmpty (str ''lint'') AllInPwd [] [] 2 Silent
       = Inr \<lparr>logged = [], executed = [], results = [], exitCode = Some 0\<rparr>"
  by (simp add: runProcessForEachFile_def filesToRunOn_empty nothingToRun_def createLogger_def
      info_def)

text \<open>
  C6, amended: when the filtered list of files is empty, no process is started, the run
  exits with 0, and it logs the one message \<open>No file to process\<close> (in green) unless the
  verbosity is \<open>Silent\<close>, under which the logger is disabled and nothing is logged.
\<close>

theorem runProcessForEachFile_no_file:
  assumes "filesToRunOn pf fi wl bl = Inr []"
  shows "runProcessForEachFile chalk sched pf p fi wl bl m v
    = Inr \<lparr>logged = (if v = Silent then [] else [chalk green (str ''No file to process'')]),
           executed = [], results = [], exitCode = Some 0\<rparr>"
  using assms
  by (simp add: runProcessForEachFile_def nothingToRun_def createLogger_def info_def
      messageForNoFile_def)

theorem runProcessForEachFile_no_file_witness:
  "filesToRunOn pfEmpty AllInPwd [] [] = Inr []
   \<and> runProcessForEachFile plain (\<lambda>a. 0) pfEmpty (str ''lint'') AllInPwd [] [] 2 LogErrors
       = Inr \<lparr>logged = [str ''No file to process''], executed = [], results = [], exitCode = Some 0\<rparr>"
  using runProcessForEachFile_no_file [OF filesToRunOn_empty, of plain "\<lambda>a. 0" "str ''lint''" 2 LogErrors]
  by (simp add: filesToRunOn_empty plain_def)

text \<open>
  C7: a result whose code is 0 is rendered under \<open>LogErrors\<close> as the check mark and the
  file name in green, with no output after them, whatever its output (one line, when the
  file name holds no line feed). The result \<open>execProcess\<close> builds for a file, when its
  code is not 0, is rendered at every verbosity \<open>v\<close> as the cross, the file name, the
  exit code and, on a new line, the whole output the result holds (nothing more when
  that output is empty), in red. The message is what \<open>runAll\<close> passes to the logger,
  which drops it under \<open>Silent\<close>.
\<close>

theorem messageForOneFile_of_result:
  "messageForOneFile chalk f s 0 LogErrors = chalk green (str ''  '' @ checkMark @ str '' '' @ f)
   \<and> (0x0A \<notin> set f \<longrightarrow> 0x0A \<notin> set (str ''  '' @ checkMark @ str '' '' @ f))
   \<and> (code (execProcess pf p f) \<noteq> 0 \<longrightarrow>
      messageForOneFile chalk (filename (execProcess pf p f)) (stdout (execProcess pf p f))
          (code (execProcess pf p f)) v
        = chalk red (str ''  '' @ ballotX @ str '' '' @ f
            @ str '' (exit code: '' @ toString (code (execProcess pf p f)) @ str '')''
            @ (if stdout (execProcess pf p f) = [] then []
               else 0x0A # stdout (execProcess pf p f))))"
  by (simp add: messageForOneFile_success messageForOneFile_failure filename_execProcess
      trim_stdout_execProcess checkMark_def str_def)

text \<open>The linter's two results, rendered without colours under \<open>LogErrors\<close>.\<close>

theorem messageForOneFile_of_result_witness:
  "code (execProcess pfLint (str ''lint'') (str ''b.ts'')) \<noteq> 0
   \<and> messageForOneFile plain (filename (execProcess pfLint (str ''lint'') (str ''b.ts'')))
        (stdout (execProcess pfLint (str ''lint'') (str ''b.ts''))) (code (execProcess pfLint (str ''lint'') (str ''b.ts''))) LogErrors
      = str ''  '' @ ballotX @ str '' b.ts (exit code: 1)'' @ [0x0A] @ str ''bad syntax''
   \<and> code (execProcess pfLint (str ''lint'') (str ''a.ts'')) = 0
   \<and> messageForOneFile plain (filename (execProcess pfLint (str ''lint'') (str ''a.ts'')))
        (stdout (execProcess pfLint (str ''lint'') (str ''a.ts''))) (code (execProcess pfLint (str ''lint'') (str ''a.ts''))) LogErrors
      = str ''  '' @ checkMark @ str '' a.ts''"
  using messageForOneFile_of_result [of plain "str ''a.ts''" "[]" pfLint "str ''lint''" LogErrors]
    messageForOneFile_of_result [of plain "str ''b.ts''" "[]" pfLint "str ''lint''" LogErrors]
  by (simp add: execProcess_lint_a execProcess_lint_b plain_def toString_def) (simp add: str_def)

text \<open>
  C8, as stated, fails under \<open>Silent\<close>: the linter fails on \<open>b.ts\<close>, the run exits with
  1, and nothing is logged, the failure's detail no more than the rest.
\<close>

theorem messageForSummary_reads_counterexample:
  "runProcessForEachFile plain (\<lambda>a. 0) pfLint (str ''lint'') IndexedInGit [] [] 2 Silent
     = Inr (runAll plain (\<lambda>a. 0) pfLint [str ''a.ts'', str ''b.ts''] (str ''lint'') 2 False Silent)
   \<and> logged (runAll plain (\<lambda>a. 0) pfLint [str ''a.ts'', str ''b.ts''] (str ''lint'') 2 False Silent) = []
   \<and> exitCode (runAll plain (\<lambda>a. 0) pfLint [str ''a.ts'', str ''b.ts''] (str ''lint'') 2 False Silent) = Some 1"
  by (simp add: runProcessForEachFile_def filesToRunOn_lint createLogger_def
      logged_runAll_disabled exitCode_runAll runInParallel_completed_iff
      execProcess_lint_a execProcess_lint_b)

text \<open>
  C8, amended: the summary \<open>messageForSummary\<close> builds reads, after \<open>Summary:\<close>, the number
  of successes, a slash, the number of results and \<open>succeeded\<close> when no result has a
  code other than 0; otherwise the number of failures, a slash, the number of results and
  \<open>failed\<close>, then the line \<open>messageForOneFile\<close> renders for each failed result, which is
  the same at every verbosity \<open>v'\<close>. A run of \<open>runAll\<close> that ends by \<open>process.exit\<close>
  logs that summary last under \<open>LogErrors\<close> and \<open>LogEverything\<close>; under \<open>Silent\<close> the
  logger is disabled and the run logs nothing.
\<close>

theorem messageForSummary_reads:
  "(filter (\<lambda>a. code a \<noteq> 0) rs = [] \<longrightarrow>
      messageForSummary chalk rs v
        = chalk green (0x0A # str ''Summary: ''
            @ toString (int (length (filter (\<lambda>a. code a = 0) rs))) @ str ''/''
            @ toString (int (length rs)) @ str '' succeeded''))
   \<and> (filter (\<lambda>a. code a \<noteq> 0) rs \<noteq> [] \<longrightarrow>
      messageForSummary chalk rs v
        = chalk red (0x0A # str ''Summary: ''
            @ toString (int (length (filter (\<lambda>a. code a \<noteq> 0) rs))) @ str ''/''
            @ toString (int (length rs)) @ str '' failed'' @ [0x0A, 0x0A]
            @ concat (map (\<lambda>e. messageForOneFile chalk (filename e) (stdout e) (code e) v' @ [0x0A])
                (filter (\<lambda>a. code a \<noteq> 0) rs))))
   \<and> (exitCode (runAll chalk sched pf f p m (createLogger v) v) \<noteq> None \<and> v \<noteq> Silent \<longrightarrow>
      logged (runAll chalk sched pf f p m (createLogger v) v) \<noteq> []
      \<and> last (logged (runAll chalk sched pf f p m (createLogger v) v))
          = messageForSummary chalk (results (runAll chalk sched pf f p m (createLogger v) v)) v)
   \<and> logged (runAll chalk sched pf f p m (createLogger Silent) Silent) = []"
proof (intro conjI impI)
  assume none: "filter (\<lambda>a. code a \<noteq> 0) rs = []"
  then have "filter (\<lambda>a. code a = 0) rs = rs"
    by (simp add: filter_empty_conv filter_id_conv)
  with none show "messageForSummary chalk rs v
      = chalk green (0x0A # str ''Summary: ''
          @ toString (int (length (filter (\<lambda>a. code a = 0) rs))) @ str ''/''
          @ toString (int (length rs)) @ str '' succeeded'')"
    by (simp add: messageForSummary_def)
next
  assume "filter (\<lambda>a. code a \<noteq> 0) rs \<noteq> []"
  then show "messageForSummary chalk rs v
      = chalk red (0x0A # str ''Summary: ''
          @ toString (int (length (filter (\<lambda>a. code a \<noteq> 0) rs))) @ str ''/''
          @ toString (int (length rs)) @ str '' failed'' @ [0x0A, 0x0A]
          @ concat (map (\<lambda>e. messageForOneFile chalk (filename e) (stdout e) (code e) v' @ [0x0A])
              (filter (\<lambda>a. code a \<noteq> 0) rs)))"
    by (simp add: messageForSummary_def Let_def foldl_append_concat
        failureLines_any_verbosity [of chalk v rs v'])
next
  assume "exitCode (runAll chalk sched pf f p m (createLogger v) v) \<noteq> None \<and> v \<noteq> Silent"
  then have "exitCode (runAll chalk sched pf f p m (createLogger v) v) \<noteq> None"
    and "v \<noteq> Silent"
    by blast+
  then have ended: "completed (runInParallel sched pf f p m)" and l: "createLogger v = True"
    by (simp_all only: exitCode_runAll_iff createLogger_def simp_thms)
  show "logged (runAll chalk sched pf f p m (createLogger v) v) \<noteq> []"
    by (simp add: l logged_runAll_enabled [OF ended])
  show "last (logged (runAll chalk sched pf f p m (createLogger v) v))
      = messageForSummary chalk (results (runAll chalk sched pf f p m (createLogger v) v)) v"
    by (simp add: l logged_runAll_enabled [OF ended])
next
  show "logged (runAll chalk sched pf f p m (createLogger Silent) Silent) = []"
    by (simp add: createLogger_def logged_runAll_disabled)
qed

text \<open>
  The linter's two results, summed up without colours under \<open>LogErrors\<close>: one of two
  failed, with the failure's line; and a run of the linter logs its summary last.
\<close>

theorem messageForSummary_reads_witness:
  "filter (\<lambda>a. code a \<noteq> 0) [execProcess pfLint (str ''lint'') (str ''a.ts''), execProcess pfLint (str ''lint'') (str ''b.ts'')] \<noteq> []
   \<and> messageForSummary plain [execProcess pfLint (str ''lint'') (str ''a.ts''), execProcess pfLint (str ''lint'') (str ''b.ts'')] LogErrors
       = [0x0A] @ str ''Summary: 1/2 failed'' @ [0x0A, 0x0A]
           @ str ''  '' @ ballotX @ str '' b.ts (exit code: 1)'' @ [0x0A] @ str ''bad syntax'' @ [0x0A]
   \<and> exitCode (runAll plain (\<lambda>a. 0) pfLint [str ''a.ts'', str ''b.ts''] (str ''lint'') 2 (createLogger LogErrors) LogErrors)
       \<noteq> None
   \<and> LogErrors \<noteq> Silent
   \<and> last (logged (runAll plain (\<lambda>a. 0) pfLint [str ''a.ts'', str ''b.ts''] (str ''lint'') 2 (createLogger LogErrors) LogErrors))
       = messageForSummary plain
           (results (runAll plain (\<lambda>a. 0) pfLint [str ''a.ts'', str ''b.ts''] (str ''lint'') 2 (createLogger LogErrors) LogErrors))
           LogErrors"
proof -
  have ne: "filter (\<lambda>a. code a \<noteq> 0)
      [execProcess pfLint (str ''lint'') (str ''a.ts''), execProcess pfLint (str ''lint'') (str ''b.ts'')] \<noteq> []"
    by (simp add: execProcess_lint_a execProcess_lint_b)
  have on: "exitCode (runAll plain (\<lambda>a. 0) pfLint [str ''a.ts'', str ''b.ts''] (str ''lint'') 2 (createLogger LogErrors) LogErrors)
        \<noteq> None
      \<and> LogErrors \<noteq> Silent"
    by (rule conjI, rule runAll_exits_iff [THEN iffD2]) simp_all
  note t = messageForSummary_reads
    [of "[execProcess pfLint (str ''lint'') (str ''a.ts''), execProcess pfLint (str ''lint'') (str ''b.ts'')]"
      plain LogErrors LogErrors "\<lambda>a. 0" pfLint "[str ''a.ts'', str ''b.ts'']" "str ''lint''" 2]
  have b: "trim (str ''bad syntax'') = str ''bad syntax''"
    using trim_stdout_execProcess [of pfLint "str ''lint''" "str ''b.ts''"]
    by (simp add: execProcess_lint_b)
  from t [THEN conjunct2, THEN conjunct1, THEN mp, OF ne]
  have s: "messageForSummary plain
      [execProcess pfLint (str ''lint'') (str ''a.ts''), execProcess pfLint (str ''lint'') (str ''b.ts'')] LogErrors
    = [0x0A] @ str ''Summary: 1/2 failed'' @ [0x0A, 0x0A]
        @ str ''  '' @ ballotX @ str '' b.ts (exit code: 1)'' @ [0x0A] @ str ''bad syntax'' @ [0x0A]"
    by (simp add: execProcess_lint_a execProcess_lint_b plain_def toString_def
        messageForOneFile_failure b) (simp add: str_def)
  from t [THEN conjunct2, THEN conjunct2, THEN conjunct1, THEN mp, OF on]
  have "last (logged (runAll plain (\<lambda>a. 0) pfLint [str ''a.ts'', str ''b.ts''] (str ''lint'') 2 (createLogger LogErrors) LogErrors))
      = messageForSummary plain
          (results (runAll plain (\<lambda>a. 0) pfLint [str ''a.ts'', str ''b.ts''] (str ''lint'') 2 (createLogger LogErrors) LogErrors))
          LogErrors"
    by (rule conjunct2)
  with ne s on show ?thesis
    by (intro conjI) simp_all
qed




text \<open>
  C10: \<open>messageForOneFile\<close> renders the trimmed output: the message is the symbol, the
  file name, the exit code of a failure and, for a failure or under \<open>LogEverything\<close>, a
  line feed and \<open>trim s\<close> when \<open>trim s\<close> is not empty, and nothing more when it is empty,
  at every verbosity and every code; so the message for \<open>s\<close> is the message for \<open>trim s\<close>.
  The trimmed output is what is left of the output between its leading and its trailing
  white space, and it neither starts nor ends with white space. An output made of white
  space only trims to the empty string and is rendered with no body.
\<close>

theorem messageForOneFile_omits_empty_body:
  "messageForOneFile chalk f s p v
     = chalk (if p = 0 then green else red)
         (str ''  '' @ (if p = 0 then checkMark else ballotX) @ str '' '' @ f
            @ (if p = 0 then [] else str '' (exit code: '' @ toString p @ str '')'')
            @ (if (p \<noteq> 0 \<or> v = LogEverything) \<and> trim s \<noteq> [] then 0x0A # trim s else []))
   \<and> messageForOneFile chalk f s p v = messageForOneFile chalk f (trim s) p v
   \<and> (\<exists>a b. s = a @ trim s @ b \<and> (\<forall>c\<in>set a. isWhiteSpace c) \<and> (\<forall>c\<in>set b. isWhiteSpace c))
   \<and> (trim s \<noteq> [] \<longrightarrow> \<not> isWhiteSpace (hd (trim s)) \<and> \<not> isWhiteSpace (last (trim s)))
   \<and> (trim s = [] \<longrightarrow>
        messageForOneFile chalk f s p v
          = chalk (if p = 0 then green else red)
              (str ''  '' @ (if p = 0 then checkMark else ballotX) @ str '' '' @ f
                 @ (if p = 0 then [] else str '' (exit code: '' @ toString p @ str '')'')))
   \<and> ((\<forall>c\<in>set s. isWhiteSpace c) \<longrightarrow>
        trim s = []
        \<and> messageForOneFile chalk f s p v
          = chalk (if p = 0 then green else red)
              (str ''  '' @ (if p = 0 then checkMark else ballotX) @ str '' '' @ f
                 @ (if p = 0 then [] else str '' (exit code: '' @ toString p @ str '')'')))"
proof (intro conjI impI)
  show "messageForOneFile chalk f s p v
     = chalk (if p = 0 then green else red)
         (str ''  '' @ (if p = 0 then checkMark else ballotX) @ str '' '' @ f
            @ (if p = 0 then [] else str '' (exit code: '' @ toString p @ str '')'')
            @ (if (p \<noteq> 0 \<or> v = LogEverything) \<and> trim s \<noteq> [] then 0x0A # trim s else []))"
    by (simp add: messageForOneFile_def Let_def)
  show "messageForOneFile chalk f s p v = messageForOneFile chalk f (trim s) p v"
    by (simp add: messageForOneFile_def Let_def trim_trim)
  have "\<forall>c\<in>set (takeWhile isWhiteSpace s). isWhiteSpace c"
    by (auto dest: set_takeWhileD)
  moreover have "\<forall>c\<in>set (rev (takeWhile isWhiteSpace (rev (dropWhile isWhiteSpace s)))). isWhiteSpace c"
    by (auto dest: set_takeWhileD)
  ultimately show "\<exists>a b. s = a @ trim s @ b \<and> (\<forall>c\<in>set a. isWhiteSpace c) \<and> (\<forall>c\<in>set b. isWhiteSpace c)"
    using trim_between [of s] by blast
next
  assume "trim s \<noteq> []"
  then show "\<not> isWhiteSpace (hd (trim s))" and "\<not> isWhiteSpace (last (trim s))"
    using trim_ends by blast+
next
  assume "trim s = []"
  then show "messageForOneFile chalk f s p v
      = chalk (if p = 0 then green else red)
          (str ''  '' @ (if p = 0 then checkMark else ballotX) @ str '' '' @ f
             @ (if p = 0 then [] else str '' (exit code: '' @ toString p @ str '')''))"
    by (simp add: messageForOneFile_def Let_def)
next
  assume w: "\<forall>c\<in>set s. isWhiteSpace c"
  then show t: "trim s = []"
    by (rule trim_only_WhiteSpace)
  then show "messageForOneFile chalk f s p v
      = chalk (if p = 0 then green else red)
          (str ''  '' @ (if p = 0 then checkMark else ballotX) @ str '' '' @ f
             @ (if p = 0 then [] else str '' (exit code: '' @ toString p @ str '')''))"
    by (simp add: messageForOneFile_def Let_def)
qed

text \<open>
  A failure whose output is \<open>x y\<close> between white space is rendered with the body \<open>x y\<close>;
  one whose output is two spaces, a line feed and a no-break space, with no body.
\<close>

theorem messageForOneFile_omits_empty_body_witness:
  "trim (str ''  x y '' @ [0x0A]) = str ''x y''
   \<and> messageForOneFile plain (str ''file1'') (str ''  x y '' @ [0x0A]) 1 LogErrors
       = str ''  '' @ ballotX @ str '' file1 (exit code: 1)'' @ [0x0A] @ str ''x y''
   \<and> list_all isWhiteSpace (str ''  '' @ [0x0A, 0xA0])
   \<and> trim (str ''  '' @ [0x0A, 0xA0]) = []
   \<and> messageForOneFile plain (str ''file1'') (str ''  '' @ [0x0A, 0xA0]) 1 LogEverything
       = str ''  '' @ ballotX @ str '' file1 (exit code: 1)''"
proof -
  have t: "trim (str ''  x y '' @ [0x0A]) = str ''x y''"
    by (simp add: trim_def isWhiteSpace_def str_def)
  have body: "messageForOneFile plain (str ''file1'') (str ''  x y '' @ [0x0A]) 1 LogErrors
      = str ''  '' @ ballotX @ str '' file1 (exit code: 1)'' @ [0x0A] @ str ''x y''"
    using messageForOneFile_omits_empty_body
      [of plain "str ''file1''" "str ''  x y '' @ [0x0A]" 1 LogErrors, THEN conjunct1]
    by (simp add: t plain_def toString_def) (simp add: str_def)
  have ws: "\<forall>c\<in>set (str ''  '' @ [0x0A, 0xA0]). isWhiteSpace c"
    by (simp add: isWhiteSpace_def str_def)
  note e = messageForOneFile_omits_empty_body
    [of plain "str ''file1''" "str ''  '' @ [0x0A, 0xA0]" 1 LogEverything,
      THEN conjunct2, THEN conjunct2, THEN conjunct2, THEN conjunct2, THEN conjunct2, THEN mp, OF ws]
  from e have none: "trim (str ''  '' @ [0x0A, 0xA0]) = []"
    by (rule conjunct1)
  from e have nobody: "messageForOneFile plain (str ''file1'') (str ''  '' @ [0x0A, 0xA0]) 1 LogEverything
      = str ''  '' @ ballotX @ str '' file1 (exit code: 1)''"
    by (simp add: plain_def toString_def) (simp add: str_def)
  from ws have la: "list_all isWhiteSpace (str ''  '' @ [0x0A, 0xA0])"
    by (simp only: list_all_iff)
  from t body la none nobody show ?thesis
    by (intro conjI)
qed

end
